theory Spec2Isabelle
  imports Main "HOL-Library.Word"
begin

unbundle bit_operations_syntax

section \<open>Byte strings and Python's integer codec\<close>

text \<open>
  A Python \<open>bytes\<close> value is a list of 8-bit words.  Python integers are unbounded, so
  every counter of the protocol object is an \<open>int\<close>.
\<close>

type_synonym byte = "8 word"
type_synonym bytes = "byte list"

datatype error = OverflowError | NameError

text \<open>
  Python slicing \<open>xs[i:j]\<close>: a negative index counts from the end, every index is clamped
  to the length, and an empty range gives the empty sequence.  Slicing never raises.
\<close>

definition py_index :: "nat \<Rightarrow> int \<Rightarrow> nat" where
  "py_index len i = (if i < 0 then nat (max (i + int len) 0) else min (nat i) len)"

definition py_slice :: "'a list \<Rightarrow> int \<Rightarrow> int \<Rightarrow> 'a list" where
  "py_slice xs i j =
     (let lo = py_index (length xs) i; hi = py_index (length xs) j
      in take (hi - lo) (drop lo xs))"

definition py_slice_from :: "'a list \<Rightarrow> int \<Rightarrow> 'a list" where
  "py_slice_from xs i = drop (py_index (length xs) i) xs"

text \<open>\<open>int.from_bytes(bs, 'big')\<close>; the empty byte string decodes to 0.\<close>

definition from_bytes :: "bytes \<Rightarrow> int" where
  "from_bytes bs = foldl (\<lambda>acc b. acc * 256 + uint b) 0 bs"

text \<open>
  \<open>n.to_bytes(len, 'big')\<close>: raises \<open>OverflowError\<close> for a negative \<open>n\<close> and for an
  \<open>n\<close> that does not fit into \<open>len\<close> bytes.
\<close>

fun be_bytes :: "nat \<Rightarrow> int \<Rightarrow> bytes" where
  "be_bytes 0 n = []"
| "be_bytes (Suc k) n = be_bytes k (n div 256) @ [word_of_int (n mod 256)]"

definition to_bytes :: "int \<Rightarrow> nat \<Rightarrow> error + bytes" where
  "to_bytes n len = (if n < 0 \<or> 256 ^ len \<le> n then Inl OverflowError else Inr (be_bytes len n))"

definition bind_res :: "error + 'a \<Rightarrow> ('a \<Rightarrow> error + 'b) \<Rightarrow> error + 'b" where
  "bind_res r f = (case r of Inl e \<Rightarrow> Inl e | Inr x \<Rightarrow> f x)"

section \<open>ProtocolConstants\<close>

definition SYN :: int where "SYN = 2"
definition ACK :: int where "ACK = 16"
definition FIN :: int where "FIN = 1"
definition MSS :: int where "MSS = 1460"
definition HEADER :: int where "HEADER = 12"
definition MTU :: int where "MTU = MSS + HEADER"

section \<open>The connection state of MyTCPProtocol\<close>

text \<open>
  The fields of the protocol object that the transfer and termination code reads and
  writes.  Threads are represented by what the code asks of them: whether the sending
  thread and the receive-dispatch thread are alive, and whether a termination thread has
  been created.  The two \<open>threading.Event\<close> objects are their flags.  \<open>trace\<close> records, oldest
  first, what the object does to its environment: every datagram handed to \<open>sendto\<close> (the
  socket is taken to be open) and every \<open>sleep(timeout_duration)\<close>.
\<close>

datatype effect = Sendto bytes | Sleep_timeout_duration

record conn =
  sequence_number :: int
  ack_number :: int
  remote_sequence_number :: int
  remote_ack_number :: int
  window_size :: int
  send_queue :: "bytes list"
  received_data :: bytes
  stop_receiving :: bool
  data_received_event :: bool
  ack_received_event :: bool
  data_sending_alive :: bool
  data_receiving_alive :: bool
  termination_thread :: bool
  trace :: "effect list"

definition sendto :: "conn \<Rightarrow> bytes \<Rightarrow> conn" where
  "sendto st d = st\<lparr>trace := trace st @ [Sendto d]\<rparr>"

definition send_flags :: "conn \<Rightarrow> int \<Rightarrow> error + conn" where
  "send_flags st flags =
     bind_res (to_bytes (sequence_number st) 4) (\<lambda>s.
     bind_res (to_bytes (ack_number st) 4) (\<lambda>a.
     bind_res (to_bytes flags 2) (\<lambda>f.
     bind_res (to_bytes (window_size st) 2) (\<lambda>w.
     Inr (sendto st (s @ a @ f @ w))))))"

definition send_data :: "conn \<Rightarrow> bytes \<Rightarrow> error + conn" where
  "send_data st data =
     bind_res (to_bytes (sequence_number st) 4) (\<lambda>s.
     bind_res (to_bytes (ack_number st) 4) (\<lambda>a.
     bind_res (to_bytes 0 2) (\<lambda>f.
     bind_res (to_bytes (window_size st) 2) (\<lambda>w.
     Inr (sendto st (s @ a @ f @ w @ data))))))"

section \<open>The receive-dispatch loop\<close>

text \<open>
  \<open>recvfrom(n)\<close> hands over one datagram, cut to at most \<open>n\<close> bytes.  One pass of the
  body of \<open>receiving\<close> on the datagram read; the Boolean says that the loop was left by
  \<open>break\<close>.  The fields are read by slicing, so a short datagram is dispatched like any other.
\<close>

definition recvfrom :: "int \<Rightarrow> bytes \<Rightarrow> bytes" where
  "recvfrom n dgram = take (nat n) dgram"

definition receiving_step :: "conn \<Rightarrow> bytes \<Rightarrow> conn \<times> bool" where
  "receiving_step st dgram =
     (let recv = recvfrom MTU dgram;
          flag = from_bytes (py_slice recv 8 10)
      in if flag = ACK then
           (st\<lparr>remote_ack_number :=
                  max (remote_ack_number st) (from_bytes (py_slice recv 4 8)),
               ack_received_event := True\<rparr>, False)
         else if flag = 0 then
           (st\<lparr>received_data := recv,
               remote_sequence_number := from_bytes (py_slice recv 0 4),
               data_received_event := True\<rparr>, False)
         else if flag = FIN then
           (st\<lparr>termination_thread := True\<rparr>, True)
         else (st, False))"

text \<open>
  The loop itself, run on the datagrams that arrive while the thread is scheduled.  A
  live thread sits in \<open>recvfrom\<close>: it handles the datagram it is given and tests
  \<open>stop_receiving\<close> before it reads the next one.  The thread ends when the loop is left.
\<close>

fun receiving :: "conn \<Rightarrow> bytes list \<Rightarrow> conn" where
  "receiving st [] = st"
| "receiving st (d # ds) =
     (if \<not> data_receiving_alive st then st
      else (case receiving_step st d of
              (st', brk) \<Rightarrow>
                if brk \<or> stop_receiving st' then st'\<lparr>data_receiving_alive := False\<rparr>
                else receiving st' ds))"

section \<open>Construction and connection establishment\<close>

text \<open>
  The fields as \<open>__init__\<close> leaves them.  \<open>window_size\<close> is
  \<open>int(BANDWIDTH / 8 * RTT)\<close>, which is 1250 for the constants of the source.
\<close>

definition init_conn :: conn where
  "init_conn =
     \<lparr>sequence_number = 0, ack_number = 0, remote_sequence_number = 0,
      remote_ack_number = 0, window_size = 1250, send_queue = [], received_data = [],
      stop_receiving = False, data_received_event = False, ack_received_event = False,
      data_sending_alive = False, data_receiving_alive = False,
      termination_thread = False, trace = []\<rparr>"

text \<open>
  The names bound at module level of \<open>protocol.py\<close>: the five imported names and the three
  classes.  Reading any other global name that is not a builtin raises \<open>NameError\<close>.
\<close>

definition module_globals :: "string list" where
  "module_globals =
     [''socket'', ''threading'', ''deque'', ''sleep'', ''TCPLogger'',
      ''ProtocolConstants'', ''UDPBasedProtocol'', ''MyTCPProtocol'']"

definition lookup_global :: "string \<Rightarrow> error + unit" where
  "lookup_global name = (if name \<in> set module_globals then Inr () else Inl NameError)"

text \<open>
  \<open>_init_client_sequence\<close> and \<open>_init_server_sequence\<close>.  The argument \<open>r\<close> stands for the
  value that \<open>random.randint(0, 2 ** 32 - 1)\<close> would draw; the name \<open>random\<close> is looked up
  first.
\<close>

definition init_client_sequence :: "conn \<Rightarrow> int \<Rightarrow> error + conn" where
  "init_client_sequence st r =
     bind_res (lookup_global ''random'') (\<lambda>_.
     Inr (st\<lparr>sequence_number := r, ack_number := 0\<rparr>))"

definition init_server_sequence :: "conn \<Rightarrow> int \<Rightarrow> error + conn" where
  "init_server_sequence st r =
     bind_res (lookup_global ''random'') (\<lambda>_.
     Inr (st\<lparr>sequence_number := r\<rparr>))"

text \<open>\<open>_finalize_server_connection\<close>; it starts the receive-dispatch thread.\<close>

definition finalize_server_connection :: "conn \<Rightarrow> conn" where
  "finalize_server_connection st =
     st\<lparr>remote_ack_number := sequence_number st,
        remote_sequence_number := ack_number st,
        data_receiving_alive := True\<rparr>"

text \<open>
  The counters and flags with which the handshake leaves an object whose sequence number
  was initialised to \<open>isn\<close> and whose \<open>ack_number\<close> was set to the peer's sequence number
  \<open>peer\<close>; the trace and the receive slot start empty here.
\<close>

definition established :: "int \<Rightarrow> int \<Rightarrow> conn" where
  "established isn peer =
     finalize_server_connection (init_conn\<lparr>sequence_number := isn, ack_number := peer\<rparr>)"

section \<open>recv\<close>

type_synonym schedule = "bytes list list"

text \<open>
  The consumer and the dispatch thread are interleaved at the consumer's blocking points:
  the datagrams that arrive while \<open>recv\<close> waits in \<open>_wait_for_data\<close> are handled by
  \<open>receiving\<close> during that wait.  A schedule lists, for each wait, the datagrams that
  arrive during it; the wait times out when the event is unset at its end.
\<close>

definition wait_for_data :: "conn \<Rightarrow> bytes list \<Rightarrow> bool \<times> conn" where
  "wait_for_data st arrivals =
     (let st1 = receiving st arrivals
      in (data_received_event st1, st1\<lparr>data_received_event := False\<rparr>))"

definition send_single_ack :: "conn \<Rightarrow> int \<Rightarrow> error + (int \<times> conn)" where
  "send_single_ack st not_ack = bind_res (send_flags st ACK) (\<lambda>st'. Inr (0, st'))"

definition send_final_acks :: "conn \<Rightarrow> error + conn" where
  "send_final_acks st =
     bind_res (send_flags st ACK) (\<lambda>st1.
     bind_res (send_flags st1 ACK) (\<lambda>st2.
     send_flags st2 ACK))"

text \<open>
  The part of the loop body of \<open>recv\<close> that runs when \<open>_wait_for_data\<close> has returned true:
  the comparison of \<open>expected_seq\<close> with \<open>remote_sequence_number\<close> and the window flush.
  The result is the state, the bytes assembled so far and \<open>not_ack\<close>.
\<close>

definition recv_consume :: "conn \<Rightarrow> bytes \<Rightarrow> int \<Rightarrow> error + (conn \<times> bytes \<times> int)" where
  "recv_consume st data not_ack =
     (let expected_seq = ack_number st + int (length (received_data st)) - HEADER
      in bind_res
           (if expected_seq = remote_sequence_number st then
              Inr (st\<lparr>ack_number := remote_sequence_number st\<rparr>,
                   data @ py_slice_from (received_data st) HEADER,
                   not_ack + (int (length (received_data st)) - HEADER))
            else if expected_seq \<le> remote_sequence_number st then
              bind_res (send_single_ack st not_ack) (\<lambda>(na, st'). Inr (st', data, na))
            else Inr (st, data, not_ack))
           (\<lambda>(st1, data1, na1).
              if window_size st1 \<le> na1 then
                bind_res (send_single_ack st1 na1) (\<lambda>(na2, st2). Inr (st2, data1, na2))
              else Inr (st1, data1, na1)))"

text \<open>One pass of the loop body, given the result of \<open>_wait_for_data\<close>.\<close>

definition recv_body :: "conn \<Rightarrow> bytes \<Rightarrow> int \<Rightarrow> bool \<Rightarrow> error + (conn \<times> bytes \<times> int)" where
  "recv_body st data not_ack signalled =
     (if \<not> signalled then
        bind_res (send_single_ack st not_ack) (\<lambda>(na, st'). Inr (st', data, na))
      else recv_consume st data not_ack)"

text \<open>One pass of the loop of \<open>recv\<close>: the wait, then the body.\<close>

definition recv_pass ::
  "conn \<Rightarrow> bytes \<Rightarrow> int \<Rightarrow> bytes list \<Rightarrow> error + (conn \<times> bytes \<times> int)" where
  "recv_pass st data not_ack arrivals =
     (case wait_for_data st arrivals of
        (signalled, st1) \<Rightarrow> recv_body st1 data not_ack signalled)"

text \<open>
  The loop of \<open>recv\<close> and what follows it, run once the connection thread has ended.
  \<open>None\<close> means that the schedule is used up while \<open>recv\<close> is still waiting for data;
  \<open>Some (Inl e)\<close> that \<open>e\<close> was raised.
\<close>

fun recv_loop ::
  "conn \<Rightarrow> int \<Rightarrow> bytes \<Rightarrow> int \<Rightarrow> schedule \<Rightarrow> (error + (bytes \<times> conn)) option" where
  "recv_loop st n data not_ack [] =
     (if int (length data) < n then None
      else Some (bind_res (send_final_acks st) (\<lambda>st'. Inr (data, st'))))"
| "recv_loop st n data not_ack (arrivals # rest) =
     (if int (length data) < n then
        (case recv_pass st data not_ack arrivals of
           Inl e \<Rightarrow> Some (Inl e)
         | Inr (st2, data2, na2) \<Rightarrow> recv_loop st2 n data2 na2 rest)
      else Some (bind_res (send_final_acks st) (\<lambda>st'. Inr (data, st'))))"

definition recv :: "conn \<Rightarrow> int \<Rightarrow> schedule \<Rightarrow> (error + (bytes \<times> conn)) option" where
  "recv st n sched = recv_loop st n [] 0 sched"


section \<open>send and the sending thread\<close>

text \<open>
  \<open>send\<close> puts the buffer on the left end of the queue and starts a new sending thread
  when none is alive.  It returns the length of the buffer.
\<close>

definition send :: "conn \<Rightarrow> bytes \<Rightarrow> int \<times> conn" where
  "send st data =
     (let st1 = st\<lparr>send_queue := data # send_queue st\<rparr>;
          st2 = (if \<not> data_sending_alive st1 then st1\<lparr>data_sending_alive := True\<rparr> else st1)
      in (int (length data), st2))"

text \<open>
  The inner loop of \<open>sending\<close> for one buffer.  The sender and the dispatch thread are
  interleaved at the sender's blocking point: each entry of the schedule lists the
  datagrams that arrive during one \<open>ack_received_event.wait(RST_TIMEOUT)\<close>, and the wait
  times out when the event is still unset at its end.  The result \<open>Inr (st, True, rest)\<close>
  is the \<open>return\<close> after a timeout, \<open>Inr (st, False, rest)\<close> the normal end of the loop,
  \<open>Inl (e, st)\<close> an exception \<open>e\<close> raised in state \<open>st\<close>, and \<open>None\<close> a sender still
  waiting when the schedule is used up.
\<close>

function sending_buffer ::
  "conn \<Rightarrow> int \<Rightarrow> bytes \<Rightarrow> schedule \<Rightarrow> ((error \<times> conn) + (conn \<times> bool \<times> schedule)) option" where
  "sending_buffer st start_seq data sched =
     (if remote_ack_number st < start_seq + int (length data) then
        if sequence_number st < start_seq + int (length data)
           \<and> sequence_number st < remote_ack_number st + window_size st
        then
          (let send_bytes =
                 min MSS (min (remote_ack_number st + window_size st - sequence_number st)
                              (start_seq + int (length data) - sequence_number st));
               st1 = st\<lparr>sequence_number := sequence_number st + send_bytes\<rparr>
           in case send_data st1
                     (py_slice data (sequence_number st1 - start_seq - send_bytes)
                                    (sequence_number st1 - start_seq)) of
                Inl e \<Rightarrow> Some (Inl (e, st1))
              | Inr st2 \<Rightarrow> sending_buffer st2 start_seq data sched)
        else
          (case sched of
             [] \<Rightarrow> None
           | arrivals # rest \<Rightarrow>
               (let st1 = receiving (st\<lparr>ack_received_event := False\<rparr>) arrivals
                in if \<not> ack_received_event st1 then Some (Inr (st1, True, rest))
                   else sending_buffer (st1\<lparr>sequence_number := remote_ack_number st1\<rparr>)
                          start_seq data rest))
      else Some (Inr (st, False, sched)))"
  by pat_completeness auto

lemma send_data_fields:
  assumes "send_data st d = Inr st'"
  shows "sequence_number st' = sequence_number st" and "send_queue st' = send_queue st"
    and "remote_ack_number st' = remote_ack_number st" and "window_size st' = window_size st"
  using assms by (auto simp: send_data_def bind_res_def sendto_def split: sum.splits)

termination sending_buffer
  apply (relation "measures [\<lambda>(st, s, d, sched). length sched,
                           \<lambda>(st, s, d, sched). nat (s + int (length d) - sequence_number st)]")
    apply simp
   apply (auto simp: MSS_def dest: send_data_fields(1))
  done

declare sending_buffer.simps [simp del]

lemma receiving_step_send_queue: "send_queue (fst (receiving_step st d)) = send_queue st"
  by (simp add: receiving_step_def Let_def)

lemma receiving_send_queue: "send_queue (receiving st ds) = send_queue st"
proof (induction ds arbitrary: st)
  case Nil
  show ?case by simp
next
  case (Cons d ds)
  show ?case
  proof (cases "receiving_step st d")
    case (Pair st' brk)
    with receiving_step_send_queue [of st d] have "send_queue st' = send_queue st" by simp
    with Pair Cons.IH [of st'] show ?thesis by simp
  qed
qed

lemma sending_buffer_send_queue:
  "sending_buffer st start_seq data sched = Some (Inr (st', b, rest)) \<Longrightarrow>
   send_queue st' = send_queue st"
proof (induction st start_seq data sched rule: sending_buffer.induct)
  case (1 st start_seq data sched)
  note eq = sending_buffer.simps [of st start_seq data sched]
  show ?case
  proof (cases "remote_ack_number st < start_seq + int (length data)")
    case False
    with "1.prems" eq show ?thesis by simp
  next
    case more: True
    show ?thesis
    proof (cases "sequence_number st < start_seq + int (length data)
                  \<and> sequence_number st < remote_ack_number st + window_size st")
      case True
      define send_bytes where "send_bytes =
        min MSS (min (remote_ack_number st + window_size st - sequence_number st)
                     (start_seq + int (length data) - sequence_number st))"
      define st1 where "st1 = st\<lparr>sequence_number := sequence_number st + send_bytes\<rparr>"
      from "1.prems" eq more True obtain st2 where
        sd: "send_data st1 (py_slice data (sequence_number st1 - start_seq - send_bytes)
                                          (sequence_number st1 - start_seq)) = Inr st2" and
        rec: "sending_buffer st2 start_seq data sched = Some (Inr (st', b, rest))"
        by (auto simp: Let_def send_bytes_def st1_def split: sum.splits)
      from "1.IH"(1) [OF more True send_bytes_def st1_def sd rec]
      have "send_queue st' = send_queue st2" .
      also from sd have "\<dots> = send_queue st1" by (rule send_data_fields)
      finally show ?thesis by (simp add: st1_def)
    next
      case nosend: False
      from "1.prems" eq more nosend obtain arrivals rest0 where sched: "sched = arrivals # rest0"
        by (cases sched) auto
      define st1 where "st1 = receiving (st\<lparr>ack_received_event := False\<rparr>) arrivals"
      have q1: "send_queue st1 = send_queue st"
        by (simp add: st1_def receiving_send_queue)
      show ?thesis
      proof (cases "ack_received_event st1")
        case False
        with "1.prems" eq more nosend sched q1
        show ?thesis by (auto simp: Let_def st1_def)
      next
        case True
        with "1.prems" eq more nosend sched
        have rec: "sending_buffer (st1\<lparr>sequence_number := remote_ack_number st1\<rparr>)
                     start_seq data rest0 = Some (Inr (st', b, rest))"
          by (auto simp: Let_def st1_def)
        from True have "\<not> \<not> ack_received_event st1" by simp
        from "1.IH"(2) [OF more nosend sched st1_def this rec]
        have "send_queue st' = send_queue (st1\<lparr>sequence_number := remote_ack_number st1\<rparr>)" .
        with q1 show ?thesis by simp
      qed
    qed
  qed
qed

text \<open>
  The outer loop of \<open>sending\<close>: \<open>pop\<close> takes the buffer at the right end of the queue.
\<close>

function sending_loop ::
  "conn \<Rightarrow> schedule \<Rightarrow> ((error \<times> conn) + (conn \<times> schedule)) option" where
  "sending_loop st sched =
     (if send_queue st \<noteq> [] then
        (let start_seq = sequence_number st;
             data = last (send_queue st);
             st1 = st\<lparr>send_queue := butlast (send_queue st)\<rparr>
         in case sending_buffer st1 start_seq data sched of
              None \<Rightarrow> None
            | Some (Inl x) \<Rightarrow> Some (Inl x)
            | Some (Inr (st2, timed_out, rest)) \<Rightarrow>
                if timed_out then Some (Inr (st2, rest)) else sending_loop st2 rest)
      else Some (Inr (st, sched)))"
  by pat_completeness auto

termination sending_loop
proof (relation "measure (\<lambda>(st, sched). length (send_queue st))", goal_cases)
  case 1
  show ?case by simp
next
  case (2 st sched start_seq data st1 x2 x3 st2 y timed_out rest)
  from 2 have "sending_buffer st1 start_seq data sched = Some (Inr (st2, timed_out, rest))"
    by simp
  then have "send_queue st2 = send_queue st1" by (rule sending_buffer_send_queue)
  with 2 show ?case by simp
qed

declare sending_loop.simps [simp del]

text \<open>
  The body of the sending thread, run once the connection thread has ended.  The thread
  is dead when the body has returned or raised.
\<close>

definition sending ::
  "conn \<Rightarrow> schedule \<Rightarrow> ((error \<times> conn) + (conn \<times> schedule)) option" where
  "sending st sched =
     (case sending_loop st sched of
        None \<Rightarrow> None
      | Some (Inl (e, st')) \<Rightarrow> Some (Inl (e, st'\<lparr>data_sending_alive := False\<rparr>))
      | Some (Inr (st', rest)) \<Rightarrow> Some (Inr (st'\<lparr>data_sending_alive := False\<rparr>, rest)))"

section \<open>Active close\<close>

text \<open>
  \<open>recv_flags\<close> runs in a matcher thread.  It reads datagrams, cut to the 12 bytes of a
  header, until one carries exactly the awaited flags, and then stores that segment's
  acknowledgment and sequence fields.  The Boolean says that the matcher has returned; a
  matcher that has used up its datagrams is still blocked in \<open>recvfrom\<close>.
\<close>

fun recv_flags :: "conn \<Rightarrow> int \<Rightarrow> bytes list \<Rightarrow> conn \<times> bool" where
  "recv_flags st flags [] = (st, False)"
| "recv_flags st flags (d # ds) =
     (let st1 = st\<lparr>received_data := recvfrom HEADER d\<rparr>
      in if from_bytes (py_slice (received_data st1) 8 10) \<noteq> flags
         then recv_flags st1 flags ds
         else (st1\<lparr>remote_ack_number := from_bytes (py_slice (received_data st1) 4 8),
                   remote_sequence_number := from_bytes (py_slice (received_data st1) 0 4)\<rparr>,
               True))"

text \<open>
  The datagrams that \<open>receiving\<close> leaves unread in the socket queue: all of them when the
  thread is dead, and those behind the datagram on which the thread ends.
\<close>

fun receiving_unread :: "conn \<Rightarrow> bytes list \<Rightarrow> bytes list" where
  "receiving_unread st [] = []"
| "receiving_unread st (d # ds) =
     (if \<not> data_receiving_alive st then d # ds
      else (case receiving_step st d of
              (st', brk) \<Rightarrow>
                if brk \<or> stop_receiving st' then ds else receiving_unread st' ds))"

text \<open>
  Unread datagrams stay in the socket queue and are read before those of the next tick; when
  no tick is left they make up one.
\<close>

definition requeue :: "bytes list \<Rightarrow> schedule \<Rightarrow> schedule" where
  "requeue unread sched =
     (if unread = [] then sched
      else (case sched of [] \<Rightarrow> [unread] | arrivals # rest \<Rightarrow> (unread @ arrivals) # rest))"

text \<open>
  \<open>_stop_receiving_thread\<close>.  Each entry of the schedule lists the datagrams that arrive
  during one \<open>join(timeout_duration)\<close>.  The part of the schedule that is left is returned,
  headed by the datagrams that the dispatch thread left unread when it ended.
\<close>

fun stop_receiving_loop :: "conn \<Rightarrow> schedule \<Rightarrow> (error + (conn \<times> schedule)) option" where
  "stop_receiving_loop st [] =
     (if data_receiving_alive st then None else Some (Inr (st, [])))"
| "stop_receiving_loop st (arrivals # rest) =
     (if data_receiving_alive st then
        (case send_flags st FIN of
           Inl e \<Rightarrow> Some (Inl e)
         | Inr st1 \<Rightarrow>
             if data_receiving_alive (receiving st1 arrivals)
             then stop_receiving_loop (receiving st1 arrivals) rest
             else Some (Inr (receiving st1 arrivals,
                             requeue (receiving_unread st1 arrivals) rest)))
      else Some (Inr (st, arrivals # rest)))"

definition stop_receiving_thread :: "conn \<Rightarrow> schedule \<Rightarrow> (error + (conn \<times> schedule)) option" where
  "stop_receiving_thread st sched = stop_receiving_loop (st\<lparr>stop_receiving := True\<rparr>) sched"

text \<open>
  The loop of \<open>_wait_for_fin_ack\<close>.  \<open>alive\<close> is the liveness of the matcher thread, which
  has just been started when the loop is entered.  A pass sends FIN and joins the matcher
  for one tick; a matcher that has returned reads nothing more.
\<close>

fun fin_ack_loop :: "conn \<Rightarrow> bool \<Rightarrow> schedule \<Rightarrow> (error + (conn \<times> schedule)) option" where
  "fin_ack_loop st alive [] =
     (if alive \<or> remote_sequence_number st \<noteq> ack_number st + 1 then None
      else Some (Inr (st, [])))"
| "fin_ack_loop st alive (arrivals # rest) =
     (if alive \<or> remote_sequence_number st \<noteq> ack_number st + 1 then
        (case send_flags st FIN of
           Inl e \<Rightarrow> Some (Inl e)
         | Inr st1 \<Rightarrow>
             if alive then
               (case recv_flags st1 (FIN OR ACK) arrivals of
                  (st2, returned) \<Rightarrow> fin_ack_loop st2 (\<not> returned) rest)
             else fin_ack_loop st1 False rest)
      else Some (Inr (st, arrivals # rest)))"

definition wait_for_fin_ack :: "conn \<Rightarrow> schedule \<Rightarrow> (error + (conn \<times> schedule)) option" where
  "wait_for_fin_ack st sched =
     (case fin_ack_loop st True sched of
        None \<Rightarrow> None
      | Some (Inl e) \<Rightarrow> Some (Inl e)
      | Some (Inr (st', rest)) \<Rightarrow>
          Some (Inr (st'\<lparr>ack_number := remote_sequence_number st'\<rparr>, rest)))"

definition send_final_client_ack :: "conn \<Rightarrow> error + conn" where
  "send_final_client_ack st =
     bind_res (send_flags (st\<lparr>sequence_number := sequence_number st + 1\<rparr>) ACK) (\<lambda>st1.
     bind_res (send_flags st1 ACK) (\<lambda>st2.
     bind_res (send_flags st2 ACK) (\<lambda>st3.
     Inr (st3\<lparr>trace := trace st3 @ [Sleep_timeout_duration]\<rparr>))))"

definition terminate_client :: "conn \<Rightarrow> schedule \<Rightarrow> (error + conn) option" where
  "terminate_client st sched =
     (case stop_receiving_thread st sched of
        None \<Rightarrow> None
      | Some (Inl e) \<Rightarrow> Some (Inl e)
      | Some (Inr (st1, rest1)) \<Rightarrow>
          (case wait_for_fin_ack st1 rest1 of
             None \<Rightarrow> None
           | Some (Inl e) \<Rightarrow> Some (Inl e)
           | Some (Inr (st2, rest2)) \<Rightarrow> Some (send_final_client_ack st2)))"

section \<open>Example datagrams\<close>

text \<open>
  Segments as they appear on the wire, for the concrete runs below: sequence number (4
  bytes), acknowledgment number (4), flags (2), window (2, here 1250), payload.
\<close>

definition ack_of_7 :: bytes where
  "ack_of_7 = [0,0,0,0, 0,0,0,7, 0,16, 4,226]"

definition ack_of_3 :: bytes where
  "ack_of_3 = [0,0,0,0, 0,0,0,3, 0,16, 4,226]"

text \<open>The 11 bytes \<open>hello world\<close> sent as one data segment from sequence number 0.\<close>

definition hello_seg :: bytes where
  "hello_seg = [0,0,0,11, 0,0,0,0, 0,0, 4,226,
                104,101,108,108,111,32,119,111,114,108,100]"

text \<open>
  The state of a receiver that started from \<open>established 0 0\<close> and has accepted
  \<open>hello_seg\<close>.
\<close>

definition after_hello :: conn where
  "after_hello = (established 0 0)\<lparr>ack_number := 11, remote_sequence_number := 11,
                   received_data := hello_seg\<rparr>"

text \<open>
  The state of a sender that started from \<open>established 0 0\<close>, was given the one byte
  \<open>a\<close> by \<open>send\<close>, transmitted it and gave up after a wait without any ACK.
\<close>

definition one_byte_sent :: conn where
  "one_byte_sent = (established 0 0)\<lparr>sequence_number := 1,
       trace := [Sendto [0,0,0,1, 0,0,0,0, 0,0, 4,226, 97]]\<rparr>"

text \<open>
  An object with \<open>ack_number = 10\<close> whose receive-dispatch loop has stopped, two FIN|ACK
  segments for it (sequence 11 and acknowledgment 999; sequence 50 and acknowledgment
  11), and the state in which its active close ends on the first of them.
\<close>

definition closing :: conn where
  "closing = (established 0 10)\<lparr>data_receiving_alive := False\<rparr>"

definition fin_ack_with_seq_11 :: bytes where
  "fin_ack_with_seq_11 = [0,0,0,11, 0,0,3,231, 0,17, 4,226]"


definition closed :: conn where
  "closed = closing\<lparr>sequence_number := 1, ack_number := 11,
                    remote_sequence_number := 11, remote_ack_number := 999,
                    received_data := fin_ack_with_seq_11, stop_receiving := True,
                    trace := [Sendto [0,0,0,0, 0,0,0,10, 0,1, 4,226],
                              Sendto [0,0,0,1, 0,0,0,11, 0,16, 4,226],
                              Sendto [0,0,0,1, 0,0,0,11, 0,16, 4,226],
                              Sendto [0,0,0,1, 0,0,0,11, 0,16, 4,226],
                              Sleep_timeout_duration]\<rparr>"

section \<open>Evaluation rules\<close>

lemma be_bytes_numeral:
  "be_bytes (numeral k) n = be_bytes (pred_numeral k) (n div 256) @ [word_of_int (n mod 256)]"
  by (simp add: numeral_eq_Suc)

lemmas consts_defs = SYN_def ACK_def FIN_def MSS_def HEADER_def MTU_def
lemmas codec_defs = py_slice_def py_slice_from_def py_index_def from_bytes_def to_bytes_def
  be_bytes_numeral bind_res_def recvfrom_def
lemmas state_defs = established_def init_conn_def finalize_server_connection_def sendto_def
  send_flags_def send_data_def
lemmas sending_defs = sending_def send_def sending_loop.simps sending_buffer.simps Let_def
lemmas close_defs = terminate_client_def stop_receiving_thread_def wait_for_fin_ack_def
  send_final_client_ack_def
lemmas recv_defs = recv_def recv_pass_def wait_for_data_def receiving_step_def recv_body_def
  recv_consume_def send_single_ack_def send_final_acks_def

section \<open>The dispatch loop and remote_ack_number\<close>

lemma receiving_step_ack:
  assumes "from_bytes (py_slice (recvfrom MTU d) 8 10) = ACK"
  shows "receiving_step st d =
           (st\<lparr>remote_ack_number :=
                  max (remote_ack_number st) (from_bytes (py_slice (recvfrom MTU d) 4 8)),
               ack_received_event := True\<rparr>, False)"
  using assms by (simp add: receiving_step_def Let_def)

lemma receiving_step_remote_ack_mono:
  "remote_ack_number st \<le> remote_ack_number (fst (receiving_step st d))"
  by (simp add: receiving_step_def Let_def)

lemma receiving_remote_ack_mono:
  "remote_ack_number st \<le> remote_ack_number (receiving st ds)"
proof (induction ds arbitrary: st)
  case Nil
  show ?case by simp
next
  case (Cons d ds)
  have step: "remote_ack_number st \<le> remote_ack_number (fst (receiving_step st d))"
    by (rule receiving_step_remote_ack_mono)
  show ?case
  proof (cases "receiving_step st d")
    case (Pair st' brk)
    with step have le: "remote_ack_number st \<le> remote_ack_number st'" by simp
    from Cons.IH [of st'] le have "remote_ack_number st \<le> remote_ack_number (receiving st' ds)"
      by (rule order_trans [rotated])
    with Pair le show ?thesis by simp
  qed
qed

lemma receiving_dead: "\<not> data_receiving_alive st \<Longrightarrow> receiving st ds = st"
  by (cases ds) simp_all

lemma receiving_append: "receiving st (xs @ ys) = receiving (receiving st xs) ys"
proof (induction xs arbitrary: st)
  case Nil
  show ?case by simp
next
  case (Cons d xs)
  show ?case
  proof (cases "data_receiving_alive st")
    case False
    then show ?thesis by (simp add: receiving_dead)
  next
    case True
    obtain st' brk where step: "receiving_step st d = (st', brk)" by (cases "receiving_step st d")
    show ?thesis
    proof (cases "brk \<or> stop_receiving st'")
      case True
      with step \<open>data_receiving_alive st\<close> show ?thesis by (simp add: receiving_dead)
    next
      case False
      with step \<open>data_receiving_alive st\<close> Cons.IH [of st'] show ?thesis by simp
    qed
  qed
qed

text \<open>
  C3.  In the receive-dispatch loop, handling a segment whose flags are exactly ACK sets
  \<open>remote_ack_number\<close> to the maximum of its old value and the decoded acknowledgment
  field.  Hence, for any sequence of ACK segments, in any order and with any repetition,
  \<open>remote_ack_number\<close> never decreases: it is monotone along the prefixes of the sequence.
\<close>

theorem remote_ack_never_decreases:
  assumes "\<forall>d \<in> set ds. from_bytes (py_slice (recvfrom MTU d) 8 10) = ACK"
  shows "(\<forall>d \<in> set ds. \<forall>s. remote_ack_number (fst (receiving_step s d)) =
            max (remote_ack_number s) (from_bytes (py_slice (recvfrom MTU d) 4 8)))
       \<and> (\<forall>i j. i \<le> j \<longrightarrow>
            remote_ack_number (receiving st (take i ds))
              \<le> remote_ack_number (receiving st (take j ds)))"
proof (intro conjI ballI allI impI)
  fix d s
  assume "d \<in> set ds"
  with assms have "from_bytes (py_slice (recvfrom MTU d) 8 10) = ACK" by blast
  then show "remote_ack_number (fst (receiving_step s d)) =
            max (remote_ack_number s) (from_bytes (py_slice (recvfrom MTU d) 4 8))"
    by (simp add: receiving_step_ack)
next
  fix i j :: nat
  assume "i \<le> j"
  then have "take j ds = take i ds @ take (j - i) (drop i ds)"
    by (metis le_add_diff_inverse take_add)
  then have "receiving st (take j ds) =
             receiving (receiving st (take i ds)) (take (j - i) (drop i ds))"
    by (simp add: receiving_append)
  then show "remote_ack_number (receiving st (take i ds))
              \<le> remote_ack_number (receiving st (take j ds))"
    by (simp add: receiving_remote_ack_mono)
qed

theorem remote_ack_never_decreases_witness:
  "from_bytes (py_slice (recvfrom MTU ack_of_7) 8 10) = ACK
   \<and> from_bytes (py_slice (recvfrom MTU ack_of_3) 8 10) = ACK
   \<and> remote_ack_number (fst (receiving_step (established 0 0) ack_of_3)) =
       max (remote_ack_number (established 0 0)) (from_bytes (py_slice (recvfrom MTU ack_of_3) 4 8))
   \<and> remote_ack_number (receiving (established 0 0) (take 1 [ack_of_7, ack_of_3, ack_of_7]))
       \<le> remote_ack_number (receiving (established 0 0) (take 3 [ack_of_7, ack_of_3, ack_of_7]))
   \<and> remote_ack_number (receiving (established 0 0) [ack_of_7, ack_of_3, ack_of_7]) = 7"
proof -
  have h7: "from_bytes (py_slice (recvfrom MTU ack_of_7) 8 10) = ACK"
    by (simp add: ack_of_7_def codec_defs consts_defs)
  have h3: "from_bytes (py_slice (recvfrom MTU ack_of_3) 8 10) = ACK"
    by (simp add: ack_of_3_def codec_defs consts_defs)
  from h7 h3 have h: "\<forall>d \<in> set [ack_of_7, ack_of_3, ack_of_7].
      from_bytes (py_slice (recvfrom MTU d) 8 10) = ACK"
    by simp
  have v: "remote_ack_number (receiving (established 0 0) [ack_of_7, ack_of_3, ack_of_7]) = 7"
    by (simp add: ack_of_7_def ack_of_3_def codec_defs consts_defs state_defs receiving_step_def)
  note inst = remote_ack_never_decreases [OF h, of "established 0 0"]
  from inst [THEN conjunct1]
  have step: "remote_ack_number (fst (receiving_step (established 0 0) ack_of_3)) =
       max (remote_ack_number (established 0 0)) (from_bytes (py_slice (recvfrom MTU ack_of_3) 4 8))"
    by simp
  from inst [THEN conjunct2, rule_format, of 1 3]
  have mono: "remote_ack_number (receiving (established 0 0) (take 1 [ack_of_7, ack_of_3, ack_of_7]))
       \<le> remote_ack_number (receiving (established 0 0) (take 3 [ack_of_7, ack_of_3, ack_of_7]))"
    by simp
  from h7 h3 step mono v show ?thesis by blast
qed

section \<open>The initial sequence number\<close>

text \<open>
  C5.  The claim is that each role initialises its sequence number to a random 32-bit
  value and that this step does not fail.  In the source the module never imports
  \<open>random\<close>, so both \<open>_init_client_sequence\<close> and \<open>_init_server_sequence\<close> raise
  \<open>NameError\<close> before any value is drawn, whatever the state and the draw.
\<close>

theorem init_sequence_raises_NameError:
  "init_client_sequence st r = Inl NameError \<and> init_server_sequence st r = Inl NameError"
  by (simp add: init_client_sequence_def init_server_sequence_def lookup_global_def
      module_globals_def bind_res_def)

section \<open>Properties of recv\<close>

text \<open>
  C10.  The claim is that \<open>recv(0)\<close> after the handshake returns the empty byte string
  and transmits three ACK segments.  That needs header fields that can be encoded.  In
  the state in which the sender is left when \<open>sequence_number\<close> has passed \<open>2 ^ 32 - 1\<close>,
  the first \<open>send_flags\<close> raises \<open>OverflowError\<close>: \<open>recv(0)\<close> returns nothing, whatever
  arrives.
\<close>

theorem recv_zero_raises_when_unencodable:
  "sending (snd (send (established 4294967295 0) [97])) [] =
     Some (Inl (OverflowError, (established 4294967295 0)\<lparr>sequence_number := 4294967296\<rparr>))
   \<and> recv ((established 4294967295 0)\<lparr>sequence_number := 4294967296\<rparr>) 0 [[hello_seg]] =
       Some (Inl OverflowError)
   \<and> recv ((established 4294967295 0)\<lparr>sequence_number := 4294967296\<rparr>) 0 [] =
       Some (Inl OverflowError)"
  by (simp add: recv_defs sending_defs state_defs codec_defs consts_defs)

text \<open>
  C10, as the code has it.  While \<open>sequence_number\<close> and \<open>ack_number\<close> fit into four
  bytes and \<open>window_size\<close> into two, \<open>recv(0)\<close> returns the empty byte string at once:
  for every schedule the result is the same, the receive slot and the data event are
  untouched, and the only effect is the transmission of three ACK control segments.
  Otherwise \<open>recv(0)\<close> raises \<open>OverflowError\<close>.
\<close>

theorem recv_zero_encodable_or_raises:
  "recv st 0 sched =
     (if 0 \<le> sequence_number st \<and> sequence_number st < 2 ^ 32
         \<and> 0 \<le> ack_number st \<and> ack_number st < 2 ^ 32
         \<and> 0 \<le> window_size st \<and> window_size st < 2 ^ 16
      then Some (Inr ([], st\<lparr>trace := trace st @
              replicate 3 (Sendto (be_bytes 4 (sequence_number st) @ be_bytes 4 (ack_number st)
                                   @ [0, 16] @ be_bytes 2 (window_size st)))\<rparr>))
      else Some (Inl OverflowError))"
proof (cases "0 \<le> sequence_number st \<and> sequence_number st < 2 ^ 32
         \<and> 0 \<le> ack_number st \<and> ack_number st < 2 ^ 32
         \<and> 0 \<le> window_size st \<and> window_size st < 2 ^ 16")
  case True
  define h where "h = be_bytes 4 (sequence_number st) @ be_bytes 4 (ack_number st)
                                   @ [0, 16] @ be_bytes 2 (window_size st)"
  have sf: "send_flags s ACK = Inr (s\<lparr>trace := trace s @ [Sendto h]\<rparr>)"
    if "sequence_number s = sequence_number st" "ack_number s = ack_number st"
       "window_size s = window_size st" for s
    using that True
    by (simp add: send_flags_def to_bytes_def bind_res_def sendto_def h_def ACK_def be_bytes_numeral)
  have "send_final_acks st = Inr (st\<lparr>trace := trace st @ [Sendto h, Sendto h, Sendto h]\<rparr>)"
    by (simp add: send_final_acks_def sf bind_res_def)
  then have "recv_loop st 0 [] 0 sched =
      Some (Inr ([], st\<lparr>trace := trace st @ [Sendto h, Sendto h, Sendto h]\<rparr>))"
    by (cases sched) (simp_all add: bind_res_def)
  with True show ?thesis
    by (simp add: recv_def h_def numeral_3_eq_3)
next
  case False
  then have "send_flags st ACK = Inl OverflowError"
    by (auto simp: send_flags_def to_bytes_def bind_res_def)
  then have "send_final_acks st = Inl OverflowError"
    by (simp add: send_final_acks_def bind_res_def)
  then have "recv_loop st 0 [] 0 sched = Some (Inl OverflowError)"
    by (cases sched) (simp_all add: bind_res_def)
  with False show ?thesis by (simp add: recv_def)
qed


theorem recv_zero_encodable_or_raises_witness:
  "recv (established 5 9) 0 [[hello_seg]] =
     Some (Inr ([], (established 5 9)\<lparr>trace :=
        [Sendto [0,0,0,5, 0,0,0,9, 0,16, 4,226],
         Sendto [0,0,0,5, 0,0,0,9, 0,16, 4,226],
         Sendto [0,0,0,5, 0,0,0,9, 0,16, 4,226]]\<rparr>))
   \<and> recv ((established 5 9)\<lparr>sequence_number := - 1\<rparr>) 0 [[hello_seg]] =
       Some (Inl OverflowError)"
  using recv_zero_encodable_or_raises [of "established 5 9" "[[hello_seg]]"]
        recv_zero_encodable_or_raises
          [of "(established 5 9)\<lparr>sequence_number := - 1\<rparr>" "[[hello_seg]]"]
  by (simp add: state_defs be_bytes_numeral numeral_3_eq_3)

text \<open>Whatever \<open>recv\<close> returns has at least the requested length.\<close>

lemma recv_loop_never_fewer:
  "recv_loop st n data not_ack sched = Some (Inr (out, st')) \<Longrightarrow> n \<le> int (length out)"
proof (induction sched arbitrary: st data not_ack)
  case Nil
  then show ?case by (auto simp: bind_res_def split: if_splits sum.splits)
next
  case (Cons arrivals rest)
  show ?case
  proof (cases "int (length data) < n")
    case False
    with Cons.prems show ?thesis by (auto simp: bind_res_def split: sum.splits)
  next
    case True
    with Cons.prems obtain st2 data2 na2 where
      "recv_loop st2 n data2 na2 rest = Some (Inr (out, st'))"
      by (auto split: sum.splits)
    then show ?thesis by (rule Cons.IH)
  qed
qed

text \<open>
  C1.  The claim is that \<open>recv(n)\<close> returns exactly \<open>n\<close> bytes, never more.  The loop
  appends the whole payload of each accepted segment and returns all it has assembled:
  with the 11-byte segment \<open>hello world\<close> pending, \<open>recv(5)\<close> returns 11 bytes.
\<close>

theorem recv_returns_more_than_requested:
  "recv (established 0 0) 5 [[hello_seg]] =
     Some (Inr ([104,101,108,108,111,32,119,111,114,108,100],
                (established 0 0)\<lparr>ack_number := 11, remote_sequence_number := 11,
                   received_data := hello_seg,
                   trace := [Sendto [0,0,0,0, 0,0,0,11, 0,16, 4,226],
                             Sendto [0,0,0,0, 0,0,0,11, 0,16, 4,226],
                             Sendto [0,0,0,0, 0,0,0,11, 0,16, 4,226]]\<rparr>))
   \<and> length [104,101,108,108,111,32,119,111,114,108,100 :: byte] = 11"
  by (simp add: recv_defs state_defs codec_defs consts_defs hello_seg_def)

text \<open>Two passes of the loop of \<open>recv\<close> on the same segment, evaluated.\<close>

lemma hello_first_pass:
  "recv_pass (established 0 0) [] 0 [hello_seg] =
     Inr (after_hello, [104,101,108,108,111,32,119,111,114,108,100], 11)"
  by (simp add: after_hello_def recv_defs state_defs codec_defs consts_defs hello_seg_def)

lemma hello_second_pass:
  "recv_pass after_hello [104,101,108,108,111,32,119,111,114,108,100] 11 [hello_seg] =
     Inr (after_hello, [104,101,108,108,111,32,119,111,114,108,100], 11)"
  by (simp add: after_hello_def recv_defs state_defs codec_defs consts_defs hello_seg_def)

text \<open>
  C4.  The claim is that every consumed data segment that is not an exact match makes
  \<open>recv\<close> send an ACK at once and reset the unacked counter.  The code does so only when
  \<open>expected_seq\<close> is below the segment's sequence number.  A duplicate of the segment just
  accepted has \<open>expected_seq\<close> above it: the pass sends nothing and leaves the counter at
  11.
\<close>

theorem duplicate_segment_is_not_acknowledged:
  "recv_pass (established 0 0) [] 0 [hello_seg] =
     Inr (after_hello, [104,101,108,108,111,32,119,111,114,108,100], 11)
   \<and> recv_pass after_hello [104,101,108,108,111,32,119,111,114,108,100] 11 [hello_seg] =
     Inr (after_hello, [104,101,108,108,111,32,119,111,114,108,100], 11)
   \<and> trace after_hello = []"
  by (simp add: hello_first_pass hello_second_pass) (simp add: after_hello_def state_defs)















section \<open>Short datagrams\<close>

text \<open>
  C8.  The claim is that a byte string shorter than 12 bytes fails to decode with a
  \<open>MalformedSegment\<close> error.  The source has no such error and no length test: a 4-byte
  datagram is taken as a data segment, and a 10-byte datagram with the ACK flag updates
  \<open>remote_ack_number\<close>.
\<close>

theorem short_datagram_is_dispatched:
  "length [0,0,0,5 :: byte] < 12
   \<and> receiving_step (established 0 0) [0,0,0,5] =
       ((established 0 0)\<lparr>received_data := [0,0,0,5], remote_sequence_number := 5,
                          data_received_event := True\<rparr>, False)
   \<and> length [0,0,0,0, 0,0,0,7, 0,16 :: byte] < 12
   \<and> receiving_step (established 0 0) [0,0,0,0, 0,0,0,7, 0,16] =
       ((established 0 0)\<lparr>remote_ack_number := 7, ack_received_event := True\<rparr>, False)"
  by (simp add: receiving_step_def state_defs codec_defs consts_defs)

lemma py_slice_take_drop:
  "0 \<le> i \<Longrightarrow> i \<le> j \<Longrightarrow> py_slice xs i j = take (nat j - nat i) (drop (nat i) xs)"
  by (auto simp: py_slice_def py_index_def Let_def min_def)

text \<open>
  C8, as the code has it.  A datagram shorter than 12 bytes is never rejected: the
  dispatch loop reads its fields by slicing, so the flags are the big-endian value of
  the bytes present at offsets 8 and 9, the acknowledgment that of the bytes present at
  offsets 4 to 7 and the sequence number that of the first up to 4 bytes.  In
  particular a datagram of at most 8 bytes has flags 0 and is stored in the receive slot
  as a data segment.  The matcher \<open>recv_flags\<close> reads a short datagram in the same way.
\<close>

theorem short_datagram_never_rejected:
  assumes "length d < 12"
  shows "receiving_step st d =
           (if from_bytes (take 2 (drop 8 d)) = ACK then
              (st\<lparr>remote_ack_number :=
                     max (remote_ack_number st) (from_bytes (take 4 (drop 4 d))),
                  ack_received_event := True\<rparr>, False)
            else if from_bytes (take 2 (drop 8 d)) = 0 then
              (st\<lparr>received_data := d, remote_sequence_number := from_bytes (take 4 d),
                  data_received_event := True\<rparr>, False)
            else if from_bytes (take 2 (drop 8 d)) = FIN then
              (st\<lparr>termination_thread := True\<rparr>, True)
            else (st, False))
         \<and> (length d \<le> 8 \<longrightarrow> receiving_step st d =
              (st\<lparr>received_data := d, remote_sequence_number := from_bytes (take 4 d),
                  data_received_event := True\<rparr>, False))
         \<and> recv_flags st flags (d # ds) =
             (if from_bytes (take 2 (drop 8 d)) \<noteq> flags
              then recv_flags (st\<lparr>received_data := d\<rparr>) flags ds
              else (st\<lparr>received_data := d,
                      remote_ack_number := from_bytes (take 4 (drop 4 d)),
                      remote_sequence_number := from_bytes (take 4 d)\<rparr>, True))"
proof -
  from assms have r: "recvfrom MTU d = d" and r': "recvfrom HEADER d = d"
    by (simp_all add: recvfrom_def consts_defs)
  have g: "receiving_step st d =
           (if from_bytes (take 2 (drop 8 d)) = ACK then
              (st\<lparr>remote_ack_number :=
                     max (remote_ack_number st) (from_bytes (take 4 (drop 4 d))),
                  ack_received_event := True\<rparr>, False)
            else if from_bytes (take 2 (drop 8 d)) = 0 then
              (st\<lparr>received_data := d, remote_sequence_number := from_bytes (take 4 d),
                  data_received_event := True\<rparr>, False)
            else if from_bytes (take 2 (drop 8 d)) = FIN then
              (st\<lparr>termination_thread := True\<rparr>, True)
            else (st, False))"
    by (simp add: receiving_step_def r py_slice_take_drop Let_def)
  have s: "length d \<le> 8 \<longrightarrow> receiving_step st d =
              (st\<lparr>received_data := d, remote_sequence_number := from_bytes (take 4 d),
                  data_received_event := True\<rparr>, False)"
    by (simp add: g from_bytes_def ACK_def)
  have m: "recv_flags st flags (d # ds) =
             (if from_bytes (take 2 (drop 8 d)) \<noteq> flags
              then recv_flags (st\<lparr>received_data := d\<rparr>) flags ds
              else (st\<lparr>received_data := d,
                      remote_ack_number := from_bytes (take 4 (drop 4 d)),
                      remote_sequence_number := from_bytes (take 4 d)\<rparr>, True))"
    by (simp add: r' py_slice_take_drop Let_def)
  from g s m show ?thesis by blast
qed


theorem short_datagram_never_rejected_witness:
  "length [0,0,1,2 :: byte] < 12
   \<and> length [0,0,1,2 :: byte] \<le> 8
   \<and> receiving_step (established 0 0) [0,0,1,2] =
       ((established 0 0)\<lparr>received_data := [0,0,1,2], remote_sequence_number := 258,
                          data_received_event := True\<rparr>, False)"
proof -
  have h: "length [0,0,1,2 :: byte] < 12" and h8: "length [0,0,1,2 :: byte] \<le> 8"
    by simp_all
  from short_datagram_never_rejected
         [OF h, where st = "established 0 0", THEN conjunct2, THEN conjunct1, rule_format, OF h8]
  have "receiving_step (established 0 0) [0,0,1,2] =
       ((established 0 0)\<lparr>received_data := [0,0,1,2], remote_sequence_number := 258,
                          data_received_event := True\<rparr>, False)"
    by (simp add: from_bytes_def)
  with h h8 show ?thesis by blast
qed

section \<open>Sequence numbers beyond 32 bits\<close>

text \<open>
  C9.  Sequence numbers are unbounded integers and are never reduced modulo \<open>2 ^ 32\<close>.
  Once \<open>sequence_number\<close> exceeds \<open>2 ^ 32 - 1\<close>, encoding the header raises
  \<open>OverflowError\<close> in \<open>send_data\<close> and in \<open>send_flags\<close>.  Such a state is reached from a
  connection established with an initial sequence number \<open>isn\<close> close to \<open>2 ^ 32 - 1\<close> by
  sending a buffer that fits into one window and reaches beyond \<open>2 ^ 32 - 1\<close>: the sender
  advances \<open>sequence_number\<close> to \<open>isn\<close> plus the length of the buffer, without wrapping,
  and the encoding of the first data segment raises, whatever arrives.
\<close>

theorem sequence_number_overflows:
  "(4294967295 < sequence_number st \<longrightarrow>
      send_data st d = Inl OverflowError \<and> send_flags st f = Inl OverflowError)
   \<and> (0 < length data \<longrightarrow> length data \<le> 1250 \<longrightarrow>
      4294967295 < isn + int (length data) \<longrightarrow>
      sending (snd (send (established isn peer) data)) sched =
        Some (Inl (OverflowError,
                   (established isn peer)\<lparr>sequence_number := isn + int (length data)\<rparr>)))"
proof (intro conjI impI)
  assume "4294967295 < sequence_number st"
  then have "to_bytes (sequence_number st) 4 = Inl OverflowError"
    by (simp add: to_bytes_def)
  then show "send_data st d = Inl OverflowError" and "send_flags st f = Inl OverflowError"
    by (simp_all add: send_data_def send_flags_def bind_res_def)
next
  assume len: "0 < length data" "length data \<le> 1250"
    and top: "4294967295 < isn + int (length data)"
  let ?q = "(established isn peer)\<lparr>data_sending_alive := True\<rparr>"
  from len have chunk: "min MSS (min (remote_ack_number ?q + window_size ?q - sequence_number ?q)
                      (isn + int (length data) - sequence_number ?q)) = int (length data)"
    by (simp add: state_defs MSS_def)
  from top have enc: "to_bytes (isn + int (length data)) 4 = Inl OverflowError"
    by (simp add: to_bytes_def)
  have "sending_buffer ?q isn data sched =
          Some (Inl (OverflowError, ?q\<lparr>sequence_number := isn + int (length data)\<rparr>))"
    using len chunk enc
    by (subst sending_buffer.simps)
       (simp add: Let_def state_defs send_data_def bind_res_def MSS_def)
  then show "sending (snd (send (established isn peer) data)) sched =
        Some (Inl (OverflowError,
                   (established isn peer)\<lparr>sequence_number := isn + int (length data)\<rparr>))"
    by (simp add: sending_def send_def sending_loop.simps Let_def state_defs)
qed

theorem sequence_number_overflows_witness:
  "4294967295 < sequence_number (established 4294967296 0)
   \<and> send_data (established 4294967296 0) [1] = Inl OverflowError
   \<and> send_flags (established 4294967296 0) ACK = Inl OverflowError
   \<and> sending (snd (send (established 4294967295 0) [97])) [] =
        Some (Inl (OverflowError, (established 4294967295 0)\<lparr>sequence_number := 4294967296\<rparr>))"
proof -
  have h: "4294967295 < sequence_number (established 4294967296 0)"
    by (simp add: state_defs)
  note inst = sequence_number_overflows
    [of "established 4294967296 0" "[1]" ACK "[97]" 4294967295 0 "[]"]
  from inst [THEN conjunct1, rule_format, OF h]
       inst [THEN conjunct2, rule_format] h
  show ?thesis by simp
qed

section \<open>A sender that gives up\<close>

text \<open>
  C6.  The claim is that after a wait of \<open>RST_TIMEOUT\<close> without an acknowledgment sending
  is abandoned for the whole connection, and that later \<open>send\<close> calls do not restart
  transmission.  In the code the timeout only ends the running sending thread.  A sender
  that has given up after transmitting \<open>a\<close> is not alive, so the next \<open>send\<close> starts a new
  thread, and that thread transmits the data segment carrying \<open>b\<close>.
\<close>

theorem later_send_restarts_transmission:
  "sending (snd (send (established 0 0) [97])) [[]] = Some (Inr (one_byte_sent, []))
   \<and> \<not> data_sending_alive one_byte_sent
   \<and> sending (snd (send one_byte_sent [98])) [[]] =
       Some (Inr (one_byte_sent\<lparr>sequence_number := 2,
                    trace := [Sendto [0,0,0,1, 0,0,0,0, 0,0, 4,226, 97],
                              Sendto [0,0,0,2, 0,0,0,0, 0,0, 4,226, 98]]\<rparr>, []))"
  by (simp add: one_byte_sent_def sending_defs state_defs codec_defs consts_defs)

lemma receiving_step_no_ack:
  assumes "from_bytes (py_slice (recvfrom MTU d) 8 10) \<noteq> ACK"
  shows "ack_received_event (fst (receiving_step st d)) = ack_received_event st"
  using assms by (simp add: receiving_step_def Let_def)

lemma receiving_step_sender_fields:
  "trace (fst (receiving_step st d)) = trace st"
  "sequence_number (fst (receiving_step st d)) = sequence_number st"
  by (simp_all add: receiving_step_def Let_def)

lemma receiving_sender_fields:
  "trace (receiving st ds) = trace st \<and> sequence_number (receiving st ds) = sequence_number st"
proof (induction ds arbitrary: st)
  case Nil
  show ?case by simp
next
  case (Cons d ds)
  obtain st' brk where step: "receiving_step st d = (st', brk)" by (cases "receiving_step st d")
  with receiving_step_sender_fields [of st d]
  have "trace st' = trace st" "sequence_number st' = sequence_number st" by simp_all
  with step Cons.IH [of st'] show ?case by simp
qed

lemma receiving_no_ack:
  assumes "\<forall>d \<in> set ds. from_bytes (py_slice (recvfrom MTU d) 8 10) \<noteq> ACK"
  shows "ack_received_event (receiving st ds) = ack_received_event st"
  using assms
proof (induction ds arbitrary: st)
  case Nil
  show ?case by simp
next
  case (Cons d ds)
  obtain st' brk where step: "receiving_step st d = (st', brk)" by (cases "receiving_step st d")
  from Cons.prems have "from_bytes (py_slice (recvfrom MTU d) 8 10) \<noteq> ACK" by simp
  from receiving_step_no_ack [OF this, of st] step
  have "ack_received_event st' = ack_received_event st" by simp
  moreover from Cons.prems have "ack_received_event (receiving st' ds) = ack_received_event st'"
    by (intro Cons.IH) simp
  ultimately show ?case using step by simp
qed

text \<open>
  C6, as the code has it.  When the inner loop of \<open>sending\<close> is at its wait and no ACK
  segment is dispatched during the wait, the loop returns at once: nothing is
  transmitted and the queue is as it was.  When the inner loop returns so, \<open>sending\<close>
  returns without taking another buffer: the thread is dead, the buffer in progress is
  gone from the queue and the buffers behind it stay queued.  A \<open>send\<close> call that finds
  the sending thread dead queues its buffer and starts a new sending thread.
\<close>

theorem timeout_ends_the_sending_run:
  "(remote_ack_number st < start_seq + int (length data) \<longrightarrow>
    \<not> (sequence_number st < start_seq + int (length data)
        \<and> sequence_number st < remote_ack_number st + window_size st) \<longrightarrow>
    (\<forall>d \<in> set arrivals. from_bytes (py_slice (recvfrom MTU d) 8 10) \<noteq> ACK) \<longrightarrow>
    sending_buffer st start_seq data (arrivals # rest) =
      Some (Inr (receiving (st\<lparr>ack_received_event := False\<rparr>) arrivals, True, rest))
    \<and> trace (receiving (st\<lparr>ack_received_event := False\<rparr>) arrivals) = trace st
    \<and> send_queue (receiving (st\<lparr>ack_received_event := False\<rparr>) arrivals) = send_queue st)
   \<and> (send_queue s \<noteq> [] \<longrightarrow>
      sending_buffer (s\<lparr>send_queue := butlast (send_queue s)\<rparr>) (sequence_number s)
         (last (send_queue s)) sched = Some (Inr (s', True, sched')) \<longrightarrow>
      sending s sched = Some (Inr (s'\<lparr>data_sending_alive := False\<rparr>, sched'))
      \<and> send_queue s' = butlast (send_queue s))
   \<and> (\<not> data_sending_alive t \<longrightarrow>
      send t buf = (int (length buf),
                    t\<lparr>send_queue := buf # send_queue t, data_sending_alive := True\<rparr>))"
proof (intro conjI impI)
  assume more: "remote_ack_number st < start_seq + int (length data)"
    and wait: "\<not> (sequence_number st < start_seq + int (length data)
        \<and> sequence_number st < remote_ack_number st + window_size st)"
    and quiet: "\<forall>d \<in> set arrivals. from_bytes (py_slice (recvfrom MTU d) 8 10) \<noteq> ACK"
  from quiet have "\<not> ack_received_event (receiving (st\<lparr>ack_received_event := False\<rparr>) arrivals)"
    by (simp add: receiving_no_ack)
  with more wait show "sending_buffer st start_seq data (arrivals # rest) =
      Some (Inr (receiving (st\<lparr>ack_received_event := False\<rparr>) arrivals, True, rest))"
    by (subst sending_buffer.simps) (auto simp: Let_def)
  show "trace (receiving (st\<lparr>ack_received_event := False\<rparr>) arrivals) = trace st"
    by (simp add: receiving_sender_fields)
  show "send_queue (receiving (st\<lparr>ack_received_event := False\<rparr>) arrivals) = send_queue st"
    by (simp add: receiving_send_queue)
next
  assume q: "send_queue s \<noteq> []"
    and r: "sending_buffer (s\<lparr>send_queue := butlast (send_queue s)\<rparr>) (sequence_number s)
         (last (send_queue s)) sched = Some (Inr (s', True, sched'))"
  from q r show "sending s sched = Some (Inr (s'\<lparr>data_sending_alive := False\<rparr>, sched'))"
    by (simp add: sending_def sending_loop.simps [of s] Let_def)
  from r have "send_queue s' = send_queue (s\<lparr>send_queue := butlast (send_queue s)\<rparr>)"
    by (rule sending_buffer_send_queue)
  then show "send_queue s' = butlast (send_queue s)" by simp
next
  assume "\<not> data_sending_alive t"
  then show "send t buf = (int (length buf),
                    t\<lparr>send_queue := buf # send_queue t, data_sending_alive := True\<rparr>)"
    by (simp add: send_def Let_def)
qed


theorem timeout_ends_the_sending_run_witness:
  "remote_ack_number (one_byte_sent\<lparr>data_sending_alive := True\<rparr>) < 0 + int (length [97 :: byte])
   \<and> from_bytes (py_slice (recvfrom MTU hello_seg) 8 10) \<noteq> ACK
   \<and> sending_buffer (one_byte_sent\<lparr>data_sending_alive := True\<rparr>) 0 [97] [[hello_seg]] =
       Some (Inr (receiving (one_byte_sent\<lparr>data_sending_alive := True,
                                            ack_received_event := False\<rparr>) [hello_seg],
                  True, []))
   \<and> trace (receiving (one_byte_sent\<lparr>data_sending_alive := True,
                                      ack_received_event := False\<rparr>) [hello_seg])
       = trace one_byte_sent
   \<and> send_queue (snd (send (established 0 0) [97])) \<noteq> []
   \<and> sending (snd (send (established 0 0) [97])) [[]] = Some (Inr (one_byte_sent, []))
   \<and> \<not> data_sending_alive one_byte_sent
   \<and> send one_byte_sent [98] =
       (1, one_byte_sent\<lparr>send_queue := [[98]], data_sending_alive := True\<rparr>)"
proof -
  let ?w = "one_byte_sent\<lparr>data_sending_alive := True\<rparr>"
  let ?s = "snd (send (established 0 0) [97])"
  have a1: "remote_ack_number ?w < 0 + int (length [97 :: byte])"
    by (simp add: one_byte_sent_def state_defs)
  have a2: "\<not> (sequence_number ?w < 0 + int (length [97 :: byte])
                \<and> sequence_number ?w < remote_ack_number ?w + window_size ?w)"
    by (simp add: one_byte_sent_def state_defs)
  have a3: "from_bytes (py_slice (recvfrom MTU hello_seg) 8 10) \<noteq> ACK"
    by (simp add: hello_seg_def codec_defs consts_defs)
  then have a3': "\<forall>d \<in> set [hello_seg]. from_bytes (py_slice (recvfrom MTU d) 8 10) \<noteq> ACK"
    by simp
  have b1: "send_queue ?s \<noteq> []"
    by (simp add: send_def Let_def)
  have b2: "sending_buffer (?s\<lparr>send_queue := butlast (send_queue ?s)\<rparr>) (sequence_number ?s)
              (last (send_queue ?s)) [[]] = Some (Inr (?w, True, []))"
    by (simp add: one_byte_sent_def sending_defs state_defs codec_defs consts_defs)
  have c1: "\<not> data_sending_alive one_byte_sent"
    by (simp add: one_byte_sent_def state_defs)
  note inst = timeout_ends_the_sending_run
    [of ?w 0 "[97]" "[hello_seg]" "[]" ?s "[[]]" ?w "[]" one_byte_sent "[98]"]
  from inst [THEN conjunct1, THEN mp, THEN mp, THEN mp, OF a1 a2 a3']
  have r1: "sending_buffer ?w 0 [97] [[hello_seg]] =
       Some (Inr (receiving (one_byte_sent\<lparr>data_sending_alive := True,
                                            ack_received_event := False\<rparr>) [hello_seg],
                  True, []))"
    and r2: "trace (receiving (one_byte_sent\<lparr>data_sending_alive := True,
                                      ack_received_event := False\<rparr>) [hello_seg])
       = trace one_byte_sent"
    by simp_all
  from inst [THEN conjunct2, THEN conjunct1, rule_format, OF b1 b2]
  have r3: "sending ?s [[]] = Some (Inr (one_byte_sent, []))"
    by (simp add: one_byte_sent_def state_defs)
  from inst [THEN conjunct2, THEN conjunct2, rule_format, OF c1]
  have r4: "send one_byte_sent [98] =
       (1, one_byte_sent\<lparr>send_queue := [[98]], data_sending_alive := True\<rparr>)"
    by (simp add: one_byte_sent_def state_defs)
  from a1 a3 r1 r2 b1 r3 c1 r4 show ?thesis by blast
qed

section \<open>Properties of the active close\<close>



text \<open>
  A FIN|ACK segment that arrives behind the datagram on which the dispatch thread ends
  stays in the socket queue and is read by the matcher.
\<close>

lemma unread_fin_ack_is_matched:
  "terminate_client (established 0 10) [[ack_of_7, fin_ack_with_seq_11]] =
     Some (Inr (closed\<lparr>remote_ack_number := 999, ack_received_event := True,
                  trace := [Sendto [0,0,0,0, 0,0,0,10, 0,1, 4,226],
                            Sendto [0,0,0,0, 0,0,0,10, 0,1, 4,226],
                            Sendto [0,0,0,1, 0,0,0,11, 0,16, 4,226],
                            Sendto [0,0,0,1, 0,0,0,11, 0,16, 4,226],
                            Sendto [0,0,0,1, 0,0,0,11, 0,16, 4,226],
                            Sleep_timeout_duration]\<rparr>))"
  by (simp add: closed_def closing_def fin_ack_with_seq_11_def ack_of_7_def close_defs
      requeue_def receiving_step_def state_defs codec_defs consts_defs)






















end
